theory Spec2Isabelle
  imports Main "HOL-Library.Word"
begin

section \<open>JavaScript strings and arrays\<close>

text \<open>
  A JavaScript string is a sequence of UTF-16 code units; \<open>length\<close>, \<open>split\<close> and
  \<open>substring\<close> all count and cut in code units. \<open>js\<close> embeds an ASCII literal.
\<close>

type_synonym code_unit = "16 word"
type_synonym js_string = "code_unit list"

definition js :: "string \<Rightarrow> js_string" where
  "js s = map of_char s"

definition SPACE :: code_unit where
  "SPACE = 0x20"

text \<open>
  \<open>s.split(sep)\<close> for a separator of one code unit (the source only ever splits on
  \<open>" "\<close>): the pieces between the occurrences of the separator, in order. The piece
  being read is kept reversed in \<open>acc\<close>. The result is never empty:
  \<open>"".split(" ")\<close> is \<open>[""]\<close>.
\<close>

fun split_from :: "code_unit \<Rightarrow> js_string \<Rightarrow> js_string \<Rightarrow> js_string list" where
  "split_from sep acc [] = [rev acc]"
| "split_from sep acc (c # cs) =
     (if c = sep then rev acc # split_from sep [] cs else split_from sep (c # acc) cs)"

definition js_split :: "js_string \<Rightarrow> code_unit \<Rightarrow> js_string list" where
  "js_split s sep = split_from sep [] s"

text \<open>\<open>arr[i]\<close>: reading past the end of an array gives \<open>undefined\<close>, here \<open>None\<close>.\<close>

definition array_get :: "'a list \<Rightarrow> nat \<Rightarrow> 'a option" where
  "array_get arr i = (if i < length arr then Some (arr ! i) else None)"

text \<open>
  \<open>s.substring(start)\<close> with a start that is a non-negative integer: the start is
  clamped to the length of the string, the end is the length.
\<close>

definition js_substring :: "js_string \<Rightarrow> nat \<Rightarrow> js_string" where
  "js_substring s start = (let from = min start (length s) in drop from (take (length s) s))"

section \<open>JSON values\<close>

text \<open>
  The values that \<open>JSON.stringify\<close> writes and \<open>JSON.parse\<close> reads back. Numbers are
  kept as integers: the amounts of the application are whole currency units, and no
  property below depends on a fractional value.
\<close>

datatype json =
    JNull
  | JBool bool
  | JNumber int
  | JString js_string
  | JArray "json list"
  | JObject "(js_string \<times> json) list"

section \<open>Client UI (the App component)\<close>

subsection \<open>State\<close>

text \<open>
  The four \<open>useState\<close> variables of \<open>App\<close>. The three texts start empty and
  \<open>transactions\<close> starts as the empty array; later it is whatever value the body of
  the GET response parsed to, kept as it came. The balance that each render adds up
  from it with the \<open>+\<close> of JavaScript (double-precision addition, or concatenation
  once a price is a string) is not modelled.
\<close>

record view_state =
  name :: js_string
  description :: js_string
  dateTime :: js_string
  transactions :: json

definition initial_state :: view_state where
  "initial_state = \<lparr>name = [], description = [], dateTime = [], transactions = JArray []\<rparr>"

subsection \<open>Effects\<close>

text \<open>
  What a handler does besides updating the state: it cancels the default action of the
  event, issues a \<open>fetch\<close> (with its init object when there is one), writes to the
  console, or throws. The body of the POST is the object handed to \<open>JSON.stringify\<close>,
  its four properties in the order of the object literal.
\<close>

datatype js_error = TypeError | SyntaxError

record post_payload =
  p_price :: json
  p_name :: json
  p_description :: json
  p_dateTime :: json

record fetch_init =
  req_method :: js_string
  req_headers :: "(js_string \<times> js_string) list"
  req_body :: post_payload

datatype effect =
    PreventDefault
  | Fetch js_string "fetch_init option"
  | ConsoleLog js_string json
  | Throw js_error

fun is_fetch :: "effect \<Rightarrow> bool" where
  "is_fetch (Fetch u i) = True"
| "is_fetch e = False"

subsection \<open>Setters\<close>

text \<open>
  The setters that \<open>useState\<close> returns. The three text inputs are controlled: each
  \<open>onChange\<close> stores \<open>event.target.value\<close> through the setter of its field.
\<close>

definition setName :: "js_string \<Rightarrow> view_state \<Rightarrow> view_state" where
  "setName v st = st\<lparr>name := v\<rparr>"

definition setDescription :: "js_string \<Rightarrow> view_state \<Rightarrow> view_state" where
  "setDescription v st = st\<lparr>description := v\<rparr>"

definition setDateTime :: "js_string \<Rightarrow> view_state \<Rightarrow> view_state" where
  "setDateTime v st = st\<lparr>dateTime := v\<rparr>"

definition setTransactions :: "json \<Rightarrow> view_state \<Rightarrow> view_state" where
  "setTransactions ts st = st\<lparr>transactions := ts\<rparr>"

subsection \<open>Loading\<close>

text \<open>
  \<open>getTransactions\<close> issues one GET to the collection endpoint; the mount effect hands
  the parsed response to \<open>setTransactions\<close>. \<open>api_url\<close> is the build-time
  \<open>REACT_APP_API_URL\<close>.
\<close>

definition getTransactions :: "js_string \<Rightarrow> effect list" where
  "getTransactions api_url = (let url = api_url @ js ''/transaction'' in [Fetch url None])"

subsection \<open>Submitting\<close>

text \<open>
  \<open>addNewTransaction\<close>: the price is the first piece of the name field split at
  spaces, the posted name is the name field from one code unit past that piece. Were
  the array empty, \<open>price\<close> would be \<open>undefined\<close> and \<open>price.length\<close> would throw
  before the fetch.
\<close>

definition addNewTransaction :: "js_string \<Rightarrow> view_state \<Rightarrow> effect list" where
  "addNewTransaction api_url st =
     PreventDefault #
     (let url = api_url @ js ''/transaction'' in
      case array_get (js_split (name st) SPACE) 0 of
        None \<Rightarrow> [Throw TypeError]
      | Some price \<Rightarrow>
          [Fetch url (Some
             \<lparr>req_method = js ''POST'',
              req_headers = [(js ''content-type'', js ''application/json'')],
              req_body =
                \<lparr>p_price = JString price,
                 p_name = JString (js_substring (name st) (length price + 1)),
                 p_description = JString (description st),
                 p_dateTime = JString (dateTime st)\<rparr>\<rparr>)])"

text \<open>
  The callback of \<open>response.json().then\<close>: the three setters, then the console line.
  It runs once the body of the response has been parsed.
\<close>

definition submit_complete :: "view_state \<Rightarrow> json \<Rightarrow> view_state \<times> effect list" where
  "submit_complete st result =
     (setDescription [] (setDateTime [] (setName [] st)), [ConsoleLog (js ''result'') result])"

text \<open>
  The response arrives: \<open>response.json()\<close> either yields the parsed body, and the
  callback runs, or rejects, and nothing observes the rejection.
\<close>

definition on_post_response :: "view_state \<Rightarrow> js_error + json \<Rightarrow> view_state \<times> effect list" where
  "on_post_response st parsed =
     (case parsed of Inl err \<Rightarrow> (st, []) | Inr result \<Rightarrow> submit_complete st result)"

subsection \<open>The form\<close>

text \<open>
  The form element as the component renders it: the three inputs in document order,
  each bound to its state variable and each marked \<open>required\<close>; \<open>onSubmit\<close> is
  \<open>addNewTransaction\<close>.
\<close>

record form_input =
  input_type :: js_string
  input_value :: js_string
  required :: bool

definition form_inputs :: "view_state \<Rightarrow> form_input list" where
  "form_inputs st =
     [\<lparr>input_type = js ''text'', input_value = name st, required = True\<rparr>,
      \<lparr>input_type = js ''datetime-local'', input_value = dateTime st, required = True\<rparr>,
      \<lparr>input_type = js ''text'', input_value = description st, required = True\<rparr>]"

text \<open>
  The browser's constraint validation: a required input whose value is the empty string
  suffers from a missing value, and a form with such an input is invalid. Pressing the
  submit button validates the form first; the submit event, and with it the
  \<open>onSubmit\<close> handler, is dispatched only for a valid form.
\<close>

definition value_missing :: "form_input \<Rightarrow> bool" where
  "value_missing i = (required i \<and> input_value i = [])"

definition check_validity :: "form_input list \<Rightarrow> bool" where
  "check_validity inputs = list_all (\<lambda>i. \<not> value_missing i) inputs"

definition press_submit :: "js_string \<Rightarrow> view_state \<Rightarrow> effect list" where
  "press_submit api_url st =
     (if check_validity (form_inputs st) then addNewTransaction api_url st else [])"

subsection \<open>The specification's vocabulary for the combined name field\<close>

text \<open>
  The leading token of an input as delimited by the space character, and the remainder
  of the input after its first space (empty when it has none).
\<close>

definition leading_token :: "js_string \<Rightarrow> js_string" where
  "leading_token s = takeWhile (\<lambda>c. c \<noteq> SPACE) s"

definition after_first_space :: "js_string \<Rightarrow> js_string" where
  "after_first_space s = drop 1 (dropWhile (\<lambda>c. c \<noteq> SPACE) s)"

text \<open>
  The leading token as delimited by any white space (the white space and line
  terminator code units of ECMAScript), which is how the specification words it.
\<close>

definition is_whitespace :: "code_unit \<Rightarrow> bool" where
  "is_whitespace c =
     (c \<in> set [0x09, 0x0A, 0x0B, 0x0C, 0x0D, 0x20, 0xA0, 0x1680, 0x2028, 0x2029, 0x202F,
                0x205F, 0x3000, 0xFEFF]
      \<or> (0x2000 \<le> c \<and> c \<le> 0x200A))"

definition whitespace_token :: "js_string \<Rightarrow> js_string" where
  "whitespace_token s = takeWhile (\<lambda>c. \<not> is_whitespace c) s"

text \<open>
  The numeric value of a token that is a signed decimal integer literal (an optional
  sign, then one or more digits); \<open>None\<close> for any other token.
\<close>

definition digit_value :: "code_unit \<Rightarrow> nat option" where
  "digit_value c = (if 0x30 \<le> c \<and> c \<le> 0x39 then Some (unat c - 48) else None)"

fun decimal_value :: "nat \<Rightarrow> js_string \<Rightarrow> nat option" where
  "decimal_value acc [] = Some acc"
| "decimal_value acc (c # cs) =
     (case digit_value c of None \<Rightarrow> None | Some d \<Rightarrow> decimal_value (10 * acc + d) cs)"

definition unsigned_value :: "js_string \<Rightarrow> nat option" where
  "unsigned_value ds = (if ds = [] then None else decimal_value 0 ds)"

definition numeric_literal_value :: "js_string \<Rightarrow> int option" where
  "numeric_literal_value tok =
     (case tok of
        [] \<Rightarrow> None
      | c # cs \<Rightarrow>
          if c = 0x2D then map_option (\<lambda>n. - int n) (unsigned_value cs)
          else if c = 0x2B then map_option int (unsigned_value cs)
          else map_option int (unsigned_value tok))"

section \<open>API service\<close>

subsection \<open>Requests and responses\<close>

text \<open>
  \<open>req.body\<close> after \<open>express.json()\<close>: the parsed object, read by property name. A
  property the object does not have reads as \<open>undefined\<close>, here \<open>None\<close>. A request
  whose body was not parsed into an object is not covered.
\<close>

type_synonym request_body = "js_string \<Rightarrow> json option"

text \<open>
  The object literal handed to \<open>Transaction.create\<close>: exactly the four properties
  \<open>name\<close>, \<open>description\<close>, \<open>dateTime\<close> and \<open>price\<close>.
\<close>

record document_fields =
  doc_name :: "json option"
  doc_description :: "json option"
  doc_dateTime :: "json option"
  doc_price :: "json option"

text \<open>
  What a route sends: \<open>res.json(v)\<close> answers with status 200 unless \<open>res.status\<close>
  was set before. The value is the array of documents, one document, or the error
  envelope \<open>{error: message}\<close>. \<open>'d\<close> is the type of the documents that the store
  returns.
\<close>

datatype 'd response_body =
    JsonArray "'d list"
  | JsonDocument 'd
  | JsonError js_string

record 'd response =
  status :: nat
  json_body :: "'d response_body"

text \<open>What an awaited store operation throws when it fails.\<close>

datatype store_error = StoreFailure

subsection \<open>Routes\<close>

text \<open>
  \<open>app.get("/api/transaction")\<close>. \<open>find_all\<close> is \<open>Transaction.find()\<close> awaited on the
  current store: the documents (\<open>Inr\<close>) or the error it throws (\<open>Inl\<close>). The
  \<open>console.error\<close> line of the catch block is not modelled.
\<close>

definition get_transaction ::
  "('s \<Rightarrow> 'e + 'd list) \<Rightarrow> 's \<Rightarrow> 'd response" where
  "get_transaction find_all store =
     (case find_all store of
        Inr transactions' \<Rightarrow> \<lparr>status = 200, json_body = JsonArray transactions'\<rparr>
      | Inl err \<Rightarrow>
          \<lparr>status = 500, json_body = JsonError (js ''Failed to fetch transactions'')\<rparr>)"

text \<open>
  \<open>app.post("/api/transaction")\<close>: the four properties are destructured from the
  body, \<open>create\<close> is \<open>Transaction.create\<close> awaited on the object built from them; it
  returns the created document or the error it throws, and the store after the call.
  The local constants carry a prime where the client's state variables have the name.
\<close>

definition post_transaction ::
  "(document_fields \<Rightarrow> 's \<Rightarrow> ('e + 'd) \<times> 's) \<Rightarrow> request_body \<Rightarrow> 's \<Rightarrow> 'd response \<times> 's" where
  "post_transaction create body store =
     (let name' = body (js ''name'');
          description' = body (js ''description'');
          dateTime' = body (js ''dateTime'');
          price' = body (js ''price'')
      in case create
             \<lparr>doc_name = name', doc_description = description',
              doc_dateTime = dateTime', doc_price = price'\<rparr> store of
           (Inr transaction, store') \<Rightarrow>
             (\<lparr>status = 200, json_body = JsonDocument transaction\<rparr>, store')
         | (Inl err, store') \<Rightarrow>
             (\<lparr>status = 500, json_body = JsonError (js ''Failed to create transaction'')\<rparr>,
              store'))"

subsection \<open>The document store\<close>

text \<open>
  Modelled from the spec: the Transaction model and the document store behind it are
  not among the sources. A stored transaction is the four fields as given, plus the
  identifier that the store assigned on creation.
\<close>

record stored_transaction =
  doc_id :: nat
  doc_fields :: document_fields

text \<open>
  Modelled from the spec: the persisted state is one flat collection of Transaction
  documents, a sequence in the store's natural order (the order of creation).
\<close>

type_synonym collection = "stored_transaction list"

text \<open>
  Modelled from the spec: the identifier that the store assigns is unique, so it is one
  that no document of the collection has.
\<close>

definition fresh_id :: "collection \<Rightarrow> nat" where
  "fresh_id c = Suc (fold max (map doc_id c) 0)"

text \<open>
  Modelled from the spec: listing returns the full collection in its order, or fails as
  a whole; \<open>reachable\<close> says whether the store can be reached for this one call.
\<close>

definition store_find :: "bool \<Rightarrow> collection \<Rightarrow> store_error + stored_transaction list" where
  "store_find reachable c = (if reachable then Inr c else Inl StoreFailure)"

text \<open>
  Modelled from the spec: creation stores the four fields as given, with no validation,
  under a new identifier, at the end of the collection, and returns the created record;
  when the store cannot be reached it fails and stores nothing.
\<close>

definition store_create ::
  "bool \<Rightarrow> document_fields \<Rightarrow> collection \<Rightarrow> (store_error + stored_transaction) \<times> collection" where
  "store_create reachable doc c =
     (if reachable
      then (let t = \<lparr>doc_id = fresh_id c, doc_fields = doc\<rparr> in (Inr t, c @ [t]))
      else (Inl StoreFailure, c))"

text \<open>
  The collection after a run of further POST requests, each with its body and with
  whether the store was reachable for it.
\<close>

fun post_all :: "(bool \<times> request_body) list \<Rightarrow> collection \<Rightarrow> collection" where
  "post_all [] c = c"
| "post_all ((reachable, body) # rs) c =
     post_all rs (snd (post_transaction (store_create reachable) body c))"

section \<open>Example data\<close>

text \<open>
  A form state with the placeholder input of the name field, one with an amount and no
  label, and one whose first white space is a tab (code unit 9) rather than a space.
\<close>

definition example_state :: view_state where
  "example_state =
     \<lparr>name = js ''20000 mobile'', description = js ''d'',
      dateTime = js ''2025-09-07T10:30'', transactions = JArray []\<rparr>"

definition no_space_state :: view_state where
  "no_space_state =
     \<lparr>name = js ''-200'', description = js ''book'',
      dateTime = js ''2025-09-07T13:30'', transactions = JArray []\<rparr>"

definition tab_state :: view_state where
  "tab_state =
     \<lparr>name = js ''20'' @ [0x09] @ js ''m x'', description = js ''d'',
      dateTime = js ''2025-09-07T10:30'', transactions = JArray []\<rparr>"

text \<open>Three loaded transactions, as the GET response carries them.\<close>

definition example_list :: json where
  "example_list =
     JArray
       [JObject [(js ''_id'', JString (js ''a1'')), (js ''name'', JString (js ''mobile'')),
                 (js ''description'', JString (js ''d'')),
                 (js ''dateTime'', JString (js ''2025-09-07T10:30'')),
                 (js ''price'', JNumber 20000)],
        JObject [(js ''_id'', JString (js ''a2'')), (js ''name'', JString (js ''rent'')),
                 (js ''description'', JString (js ''flat'')),
                 (js ''dateTime'', JString (js ''2025-09-08T09:00'')),
                 (js ''price'', JNumber (- 30000))],
        JObject [(js ''_id'', JString (js ''a3'')), (js ''name'', JString []),
                 (js ''description'', JString (js ''book'')),
                 (js ''dateTime'', JString (js ''2025-09-09T13:30'')),
                 (js ''price'', JNumber (- 200))]]"

text \<open>A request body with the four fields and one more key, and what is made of it.\<close>

definition example_body :: request_body where
  "example_body =
     [js ''name'' \<mapsto> JString (js ''mobile''),
      js ''description'' \<mapsto> JString (js ''d''),
      js ''dateTime'' \<mapsto> JString (js ''2025-09-07T10:30''),
      js ''price'' \<mapsto> JNumber 20000,
      js ''extra'' \<mapsto> JBool True]"

definition example_fields :: document_fields where
  "example_fields =
     \<lparr>doc_name = Some (JString (js ''mobile'')),
      doc_description = Some (JString (js ''d'')),
      doc_dateTime = Some (JString (js ''2025-09-07T10:30'')),
      doc_price = Some (JNumber 20000)\<rparr>"

definition example_created :: stored_transaction where
  "example_created = \<lparr>doc_id = 1, doc_fields = example_fields\<rparr>"

text \<open>
  Two stand-ins for the store's operations on a list of the documents handed over: one
  that always succeeds and keeps what it is given, one that always fails.
\<close>

definition create_ok ::
  "document_fields \<Rightarrow> document_fields list \<Rightarrow> (store_error + document_fields) \<times> document_fields list" where
  "create_ok doc handed = (Inr doc, handed @ [doc])"

definition create_failing ::
  "document_fields \<Rightarrow> document_fields list \<Rightarrow> (store_error + document_fields) \<times> document_fields list" where
  "create_failing doc handed = (Inl StoreFailure, handed)"

definition find_ok :: "document_fields list \<Rightarrow> store_error + document_fields list" where
  "find_ok handed = Inr handed"

definition find_failing :: "document_fields list \<Rightarrow> store_error + document_fields list" where
  "find_failing handed = Inl StoreFailure"

section \<open>Properties of the client\<close>

subsection \<open>Splitting the combined name field\<close>

lemma split_from_hd:
  "split_from sep acc s =
     (rev acc @ takeWhile (\<lambda>c. c \<noteq> sep) s) #
     (case dropWhile (\<lambda>c. c \<noteq> sep) s of [] \<Rightarrow> [] | d # ds \<Rightarrow> split_from sep [] ds)"
  by (induction s arbitrary: acc) auto

lemma js_split_first:
  "array_get (js_split s sep) 0 = Some (takeWhile (\<lambda>c. c \<noteq> sep) s)"
proof -
  obtain rest where "js_split s sep = takeWhile (\<lambda>c. c \<noteq> sep) s # rest"
    using split_from_hd [of sep "[]" s] by (simp add: js_split_def)
  then show ?thesis
    by (simp add: array_get_def)
qed

text \<open>The split on small inputs: several pieces, no separator, and empty pieces.\<close>

lemma js_split_examples:
  "js_split (js ''a bc d'') SPACE = [js ''a'', js ''bc'', js ''d'']"
  "js_split (js ''-200'') SPACE = [js ''-200'']"
  "js_split [] SPACE = [[]]"
  "js_split (js '' a  b '') SPACE = [[], js ''a'', [], js ''b'', []]"
  by (simp_all add: js_split_def js_def SPACE_def)

lemma js_substring_drop: "js_substring s n = drop n s"
  by (simp add: js_substring_def Let_def min_def)

lemma drop_past_token:
  "drop (Suc (length (takeWhile P s))) s = drop 1 (dropWhile P s)"
proof -
  have "drop (Suc (length (takeWhile P s))) s = drop 1 (drop (length (takeWhile P s)) s)"
    by simp
  also have "drop (length (takeWhile P s)) s = dropWhile P s"
    by (simp add: dropWhile_eq_drop)
  finally show ?thesis .
qed

text \<open>
  The handler never throws: it always cancels the default action and issues exactly one
  POST, whose price and name are the two parts of the name field.
\<close>

lemma addNewTransaction_fetch:
  "addNewTransaction api_url st =
     [PreventDefault,
      Fetch (api_url @ js ''/transaction'') (Some
        \<lparr>req_method = js ''POST'',
         req_headers = [(js ''content-type'', js ''application/json'')],
         req_body =
           \<lparr>p_price = JString (takeWhile (\<lambda>c. c \<noteq> SPACE) (name st)),
            p_name = JString (drop 1 (dropWhile (\<lambda>c. c \<noteq> SPACE) (name st))),
            p_description = JString (description st),
            p_dateTime = JString (dateTime st)\<rparr>\<rparr>)]"
  by (simp add: addNewTransaction_def js_split_first js_substring_drop drop_past_token)

lemma no_space_parts:
  assumes "SPACE \<notin> set s"
  shows "takeWhile (\<lambda>c. c \<noteq> SPACE) s = s" and "dropWhile (\<lambda>c. c \<noteq> SPACE) s = []"
  using assms by (auto simp add: takeWhile_eq_all_conv)

lemma space_parts:
  assumes "SPACE \<in> set s"
  shows "takeWhile (\<lambda>c. c \<noteq> SPACE) s @ [SPACE] @ drop 1 (dropWhile (\<lambda>c. c \<noteq> SPACE) s) = s"
proof -
  let ?P = "\<lambda>c. c \<noteq> SPACE"
  from assms have nonempty: "dropWhile ?P s \<noteq> []"
    by auto
  then have "\<not> ?P (hd (dropWhile ?P s))"
    by (rule hd_dropWhile)
  with nonempty have "dropWhile ?P s = SPACE # drop 1 (dropWhile ?P s)"
    by (cases "dropWhile ?P s") simp_all
  then have "takeWhile ?P s @ [SPACE] @ drop 1 (dropWhile ?P s) = takeWhile ?P s @ dropWhile ?P s"
    by simp
  then show ?thesis
    by simp
qed

text \<open>
  Claim C1, as amended. For every submitted state, the price field of the posted
  payload is the leading token of the name input as delimited by the space character,
  sent as a string and not converted to a number (for a token that is a numeric literal,
  the price is the text of that literal), and the posted name field is the string of the
  remainder of the input after its first space, which is empty when there is no space.
\<close>

theorem posted_price_and_name:
  "addNewTransaction api_url st =
     [PreventDefault,
      Fetch (api_url @ js ''/transaction'') (Some
        \<lparr>req_method = js ''POST'',
         req_headers = [(js ''content-type'', js ''application/json'')],
         req_body =
           \<lparr>p_price = JString (leading_token (name st)),
            p_name = JString (after_first_space (name st)),
            p_description = JString (description st),
            p_dateTime = JString (dateTime st)\<rparr>\<rparr>)]"
  by (simp add: addNewTransaction_fetch leading_token_def after_first_space_def)

text \<open>The input \<open>"20000 mobile"\<close> posts the price \<open>"20000"\<close> and the name \<open>"mobile"\<close>.\<close>

theorem posted_price_and_name_witness:
  "addNewTransaction (js ''/api'') example_state =
     [PreventDefault,
      Fetch (js ''/api/transaction'') (Some
        \<lparr>req_method = js ''POST'',
         req_headers = [(js ''content-type'', js ''application/json'')],
         req_body =
           \<lparr>p_price = JString (js ''20000''),
            p_name = JString (js ''mobile''),
            p_description = JString (js ''d''),
            p_dateTime = JString (js ''2025-09-07T10:30'')\<rparr>\<rparr>)]"
  by (subst posted_price_and_name)
     (simp add: example_state_def leading_token_def after_first_space_def js_def SPACE_def)

text \<open>
  Claim C1 as it was stated fails twice. For \<open>"20000 mobile"\<close> the leading token is
  the numeric literal of 20000, and the posted price is the string \<open>"20000"\<close>, not the
  number. For an input whose first white space is a tab, the leading white-space
  delimited token is the numeric literal of 20, yet the posted price is the text up to
  the first space, tab included, which is no numeric literal at all.
\<close>

theorem posted_price_is_number_counterexample:
  "numeric_literal_value (whitespace_token (name example_state)) = Some 20000 \<and>
   addNewTransaction (js ''/api'') example_state =
     [PreventDefault,
      Fetch (js ''/api/transaction'') (Some
        \<lparr>req_method = js ''POST'',
         req_headers = [(js ''content-type'', js ''application/json'')],
         req_body =
           \<lparr>p_price = JString (js ''20000''),
            p_name = JString (js ''mobile''),
            p_description = JString (js ''d''),
            p_dateTime = JString (js ''2025-09-07T10:30'')\<rparr>\<rparr>)] \<and>
   JString (js ''20000'') \<noteq> JNumber 20000 \<and>
   whitespace_token (name tab_state) = js ''20'' \<and>
   numeric_literal_value (whitespace_token (name tab_state)) = Some 20 \<and>
   addNewTransaction (js ''/api'') tab_state =
     [PreventDefault,
      Fetch (js ''/api/transaction'') (Some
        \<lparr>req_method = js ''POST'',
         req_headers = [(js ''content-type'', js ''application/json'')],
         req_body =
           \<lparr>p_price = JString (js ''20'' @ [0x09] @ js ''m''),
            p_name = JString (js ''x''),
            p_description = JString (js ''d''),
            p_dateTime = JString (js ''2025-09-07T10:30'')\<rparr>\<rparr>)] \<and>
   js ''20'' @ [0x09] @ js ''m'' \<noteq> js ''20'' \<and>
   numeric_literal_value (js ''20'' @ [0x09] @ js ''m'') = None"
  by (simp add: addNewTransaction_fetch example_state_def tab_state_def whitespace_token_def
      is_whitespace_def numeric_literal_value_def unsigned_value_def digit_value_def
      js_def SPACE_def)

text \<open>
  Claim C7, as amended. For every submitted state whose name input contains no space,
  the whole input is the price of the posted payload, sent as a string, and the posted
  name is the empty string; for the input \<open>"-200"\<close> the posted price is the string
  \<open>"-200"\<close>, not a number.
\<close>

theorem no_space_whole_input_is_price:
  "SPACE \<notin> set (name st) \<Longrightarrow>
   addNewTransaction api_url st =
     [PreventDefault,
      Fetch (api_url @ js ''/transaction'') (Some
        \<lparr>req_method = js ''POST'',
         req_headers = [(js ''content-type'', js ''application/json'')],
         req_body =
           \<lparr>p_price = JString (name st),
            p_name = JString [],
            p_description = JString (description st),
            p_dateTime = JString (dateTime st)\<rparr>\<rparr>)]"
  by (simp add: addNewTransaction_fetch no_space_parts)

text \<open>The input \<open>"-200"\<close> posts the string \<open>"-200"\<close> as price and an empty name.\<close>

theorem no_space_whole_input_is_price_witness:
  "SPACE \<notin> set (name no_space_state) \<and>
   addNewTransaction (js ''/api'') no_space_state =
     [PreventDefault,
      Fetch (js ''/api/transaction'') (Some
        \<lparr>req_method = js ''POST'',
         req_headers = [(js ''content-type'', js ''application/json'')],
         req_body =
           \<lparr>p_price = JString (js ''-200''),
            p_name = JString [],
            p_description = JString (js ''book''),
            p_dateTime = JString (js ''2025-09-07T13:30'')\<rparr>\<rparr>)]"
proof -
  have no_space: "SPACE \<notin> set (name no_space_state)"
    by (simp add: no_space_state_def js_def SPACE_def)
  from no_space no_space_whole_input_is_price [OF no_space, of "js ''/api''"]
  show ?thesis
    by (simp add: no_space_state_def js_def)
qed

text \<open>
  Claim C7 as it was stated fails in its example: the input \<open>"-200"\<close> has no space,
  and the price it posts is the string \<open>"-200"\<close>, which is not the number -200.
\<close>

theorem no_space_price_is_number_counterexample:
  "SPACE \<notin> set (name no_space_state) \<and>
   name no_space_state = js ''-200'' \<and>
   addNewTransaction (js ''/api'') no_space_state =
     [PreventDefault,
      Fetch (js ''/api/transaction'') (Some
        \<lparr>req_method = js ''POST'',
         req_headers = [(js ''content-type'', js ''application/json'')],
         req_body =
           \<lparr>p_price = JString (js ''-200''),
            p_name = JString [],
            p_description = JString (js ''book''),
            p_dateTime = JString (js ''2025-09-07T13:30'')\<rparr>\<rparr>)] \<and>
   JString (js ''-200'') \<noteq> JNumber (- 200)"
  by (simp add: addNewTransaction_fetch no_space_state_def js_def SPACE_def)

text \<open>
  Claim C10. For every submitted state whose name input contains a space, the posted
  price token, one space and the posted name, put together, are the input again.
\<close>

theorem split_loses_no_text:
  "SPACE \<in> set (name st) \<Longrightarrow>
   \<exists>price rest.
     addNewTransaction api_url st =
       [PreventDefault,
        Fetch (api_url @ js ''/transaction'') (Some
          \<lparr>req_method = js ''POST'',
           req_headers = [(js ''content-type'', js ''application/json'')],
           req_body =
             \<lparr>p_price = JString price,
              p_name = JString rest,
              p_description = JString (description st),
              p_dateTime = JString (dateTime st)\<rparr>\<rparr>)] \<and>
     price @ [SPACE] @ rest = name st"
  using addNewTransaction_fetch [of api_url st] space_parts [of "name st"] by blast

text \<open>For \<open>"20000 mobile"\<close> the two posted parts are \<open>"20000"\<close> and \<open>"mobile"\<close>.\<close>

theorem split_loses_no_text_witness:
  "SPACE \<in> set (name example_state) \<and>
   (\<exists>price rest.
      addNewTransaction (js ''/api'') example_state =
        [PreventDefault,
         Fetch (js ''/api/transaction'') (Some
           \<lparr>req_method = js ''POST'',
            req_headers = [(js ''content-type'', js ''application/json'')],
            req_body =
              \<lparr>p_price = JString price,
               p_name = JString rest,
               p_description = JString (js ''d''),
               p_dateTime = JString (js ''2025-09-07T10:30'')\<rparr>\<rparr>)] \<and>
      price @ [SPACE] @ rest = js ''20000 mobile'')"
proof -
  have has_space: "SPACE \<in> set (name example_state)"
    by (simp add: example_state_def js_def SPACE_def)
  from split_loses_no_text [OF has_space, of "js ''/api''"] has_space
  show ?thesis
    by (simp add: example_state_def js_def)
qed

subsection \<open>After the response\<close>

text \<open>A response whose body does not parse leaves the form as it was.\<close>

lemma unparsed_response_changes_nothing: "on_post_response st (Inl err) = (st, [])"
  by (simp add: on_post_response_def)

text \<open>
  Claim C6. When the response of the POST has arrived and its body has been parsed, the
  transition sets the name, dateTime and description fields to the empty string and
  nothing else: the list of transactions is as before, so the new record is not
  appended, and no fetch is issued.
\<close>

theorem submit_complete_clears_fields_only:
  "on_post_response st (Inr result) =
     (st\<lparr>name := [], dateTime := [], description := []\<rparr>,
      [ConsoleLog (js ''result'') result]) \<and>
   name (fst (on_post_response st (Inr result))) = [] \<and>
   dateTime (fst (on_post_response st (Inr result))) = [] \<and>
   description (fst (on_post_response st (Inr result))) = [] \<and>
   transactions (fst (on_post_response st (Inr result))) = transactions st \<and>
   \<not> list_ex is_fetch (snd (on_post_response st (Inr result)))"
  by (simp add: on_post_response_def submit_complete_def setName_def setDateTime_def
      setDescription_def)

text \<open>With three transactions loaded, the form is emptied and the three stay.\<close>

theorem submit_complete_clears_fields_only_witness:
  "on_post_response (setTransactions example_list example_state) (Inr (JString (js ''ok''))) =
     (\<lparr>name = [], description = [], dateTime = [], transactions = example_list\<rparr>,
      [ConsoleLog (js ''result'') (JString (js ''ok''))])"
  using submit_complete_clears_fields_only
    [of "setTransactions example_list example_state" "JString (js ''ok'')"]
  by (simp add: setTransactions_def example_state_def)

subsection \<open>Required fields\<close>

text \<open>A form with all three fields filled in is submitted to the handler.\<close>

lemma press_submit_valid:
  "name st \<noteq> [] \<Longrightarrow> dateTime st \<noteq> [] \<Longrightarrow> description st \<noteq> [] \<Longrightarrow>
   press_submit api_url st = addNewTransaction api_url st"
  by (simp add: press_submit_def check_validity_def form_inputs_def value_missing_def)

text \<open>
  Claim C8. For every form state in which the description or the dateTime is the empty
  string, pressing submit is stopped by the required-field constraint of the form: the
  handler does not run, and no fetch, hence no POST, is issued.
\<close>

theorem required_fields_block_submit:
  "description st = [] \<or> dateTime st = [] \<Longrightarrow>
   press_submit api_url st = [] \<and> \<not> list_ex is_fetch (press_submit api_url st)"
  by (auto simp add: press_submit_def check_validity_def form_inputs_def value_missing_def)

text \<open>With the description emptied, or the date, nothing is sent.\<close>

theorem required_fields_block_submit_witness:
  "description (setDescription [] example_state) = [] \<and>
   press_submit (js ''/api'') (setDescription [] example_state) = [] \<and>
   dateTime (setDateTime [] example_state) = [] \<and>
   press_submit (js ''/api'') (setDateTime [] example_state) = []"
proof -
  have d: "description (setDescription [] example_state) = []"
    by (simp add: setDescription_def)
  have t: "dateTime (setDateTime [] example_state) = []"
    by (simp add: setDateTime_def)
  from d t
    required_fields_block_submit [OF disjI1, OF d, of "js ''/api''"]
    required_fields_block_submit [OF disjI2, OF t, of "js ''/api''"]
  show ?thesis
    by simp
qed

section \<open>Properties of the API service\<close>

subsection \<open>Listing\<close>

text \<open>
  Claim C4. When the store's find succeeds, the GET route answers 200 with exactly the
  sequence that the store returned, every element in the store's order; when it fails,
  the route answers 500 with the error envelope; and every answer is one of these two.
\<close>

theorem get_transaction_responses:
  "(find_all store = Inr docs \<longrightarrow>
      get_transaction find_all store = \<lparr>status = 200, json_body = JsonArray docs\<rparr>) \<and>
   (find_all store = Inl err \<longrightarrow>
      get_transaction find_all store =
        \<lparr>status = 500, json_body = JsonError (js ''Failed to fetch transactions'')\<rparr>) \<and>
   ((\<exists>ds. find_all store = Inr ds \<and>
          get_transaction find_all store = \<lparr>status = 200, json_body = JsonArray ds\<rparr>) \<or>
    (\<exists>e. find_all store = Inl e \<and>
          get_transaction find_all store =
            \<lparr>status = 500, json_body = JsonError (js ''Failed to fetch transactions'')\<rparr>))"
  by (cases "find_all store") (simp_all add: get_transaction_def)

text \<open>A store of two documents, listed in order; and the same store failing.\<close>

theorem get_transaction_responses_witness:
  "get_transaction find_ok [example_fields, example_fields\<lparr>doc_price := None\<rparr>] =
     \<lparr>status = 200,
      json_body = JsonArray [example_fields, example_fields\<lparr>doc_price := None\<rparr>]\<rparr> \<and>
   get_transaction find_failing [example_fields, example_fields\<lparr>doc_price := None\<rparr>] =
     \<lparr>status = 500, json_body = JsonError (js ''Failed to fetch transactions'')\<rparr>"
  using
    get_transaction_responses
      [of find_ok "[example_fields, example_fields\<lparr>doc_price := None\<rparr>]"
          "[example_fields, example_fields\<lparr>doc_price := None\<rparr>]" StoreFailure]
    get_transaction_responses
      [of find_failing "[example_fields, example_fields\<lparr>doc_price := None\<rparr>]"
          "[]" StoreFailure]
  by (simp add: find_ok_def find_failing_def)

subsection \<open>Creating\<close>

text \<open>
  Claim C5. The POST route hands the four fields of the request body to the store's
  create as they are, whatever they are; when create succeeds, the route answers 200
  with the created record as the store returned it, and when create fails, it answers
  500 with the error envelope. Every answer is one of these two: the failure is turned
  into a response and goes no further.
\<close>

theorem post_transaction_responses:
  "(create \<lparr>doc_name = body (js ''name''), doc_description = body (js ''description''),
            doc_dateTime = body (js ''dateTime''), doc_price = body (js ''price'')\<rparr> store
      = (Inr t, store') \<longrightarrow>
    post_transaction create body store =
      (\<lparr>status = 200, json_body = JsonDocument t\<rparr>, store')) \<and>
   (create \<lparr>doc_name = body (js ''name''), doc_description = body (js ''description''),
            doc_dateTime = body (js ''dateTime''), doc_price = body (js ''price'')\<rparr> store
      = (Inl err, store') \<longrightarrow>
    post_transaction create body store =
      (\<lparr>status = 500, json_body = JsonError (js ''Failed to create transaction'')\<rparr>,
       store')) \<and>
   ((\<exists>d. fst (post_transaction create body store) =
          \<lparr>status = 200, json_body = JsonDocument d\<rparr>) \<or>
    fst (post_transaction create body store) =
      \<lparr>status = 500, json_body = JsonError (js ''Failed to create transaction'')\<rparr>)"
  by (auto simp add: post_transaction_def Let_def split: prod.splits sum.splits)

lemma example_body_fields:
  "example_body (js ''name'') = Some (JString (js ''mobile''))"
  "example_body (js ''description'') = Some (JString (js ''d''))"
  "example_body (js ''dateTime'') = Some (JString (js ''2025-09-07T10:30''))"
  "example_body (js ''price'') = Some (JNumber 20000)"
  by (simp_all add: example_body_def js_def)

text \<open>The example body, created by a store that succeeds and by one that fails.\<close>

theorem post_transaction_responses_witness:
  "post_transaction create_ok example_body [] =
     (\<lparr>status = 200, json_body = JsonDocument example_fields\<rparr>, [example_fields]) \<and>
   post_transaction create_failing example_body [] =
     (\<lparr>status = 500, json_body = JsonError (js ''Failed to create transaction'')\<rparr>, [])"
  using
    post_transaction_responses
      [of create_ok example_body "[]" example_fields "[example_fields]" StoreFailure]
    post_transaction_responses
      [of create_failing example_body "[]" example_fields "[]" StoreFailure]
  by (simp add: create_ok_def create_failing_def example_body_fields example_fields_def)

text \<open>
  Claim C9. The document handed to the store's create is built from the four fields
  name, description, dateTime and price of the request body and from nothing else: two
  bodies that agree on these four keys give the same response and the same store,
  whatever the store does, and what create receives is the record of the four values.
\<close>

theorem only_four_fields_reach_create:
  assumes "body' (js ''name'') = body (js ''name'')"
    and "body' (js ''description'') = body (js ''description'')"
    and "body' (js ''dateTime'') = body (js ''dateTime'')"
    and "body' (js ''price'') = body (js ''price'')"
  shows "post_transaction create body' store = post_transaction create body store \<and>
    post_transaction create_ok body' [] =
      (\<lparr>status = 200, json_body = JsonDocument
          \<lparr>doc_name = body (js ''name''), doc_description = body (js ''description''),
           doc_dateTime = body (js ''dateTime''), doc_price = body (js ''price'')\<rparr>\<rparr>,
       [\<lparr>doc_name = body (js ''name''), doc_description = body (js ''description''),
           doc_dateTime = body (js ''dateTime''), doc_price = body (js ''price'')\<rparr>])"
  using assms by (simp add: post_transaction_def Let_def create_ok_def)

text \<open>The example body with its extra key, and the same body with a second one.\<close>

theorem only_four_fields_reach_create_witness:
  "post_transaction create_ok (example_body(js ''admin'' \<mapsto> JBool True)) [] =
     post_transaction create_ok example_body [] \<and>
   post_transaction create_ok (example_body(js ''admin'' \<mapsto> JBool True)) [] =
     (\<lparr>status = 200, json_body = JsonDocument example_fields\<rparr>, [example_fields])"
proof -
  let ?more = "example_body(js ''admin'' \<mapsto> JBool True)"
  have same:
    "?more (js ''name'') = example_body (js ''name'')"
    "?more (js ''description'') = example_body (js ''description'')"
    "?more (js ''dateTime'') = example_body (js ''dateTime'')"
    "?more (js ''price'') = example_body (js ''price'')"
    by (simp_all add: js_def)
  note both = only_four_fields_reach_create [OF same, of create_ok "[]"]
  have unchanged: "post_transaction create_ok ?more [] = post_transaction create_ok example_body []"
    by (rule both [THEN conjunct1])
  have handed: "post_transaction create_ok ?more [] =
      (\<lparr>status = 200, json_body = JsonDocument example_fields\<rparr>, [example_fields])"
    using both [THEN conjunct2] unfolding example_body_fields example_fields_def .
  from unchanged handed show ?thesis
    by (rule conjI)
qed

subsection \<open>Create, then list\<close>

lemma fold_max_ge: "a \<le> fold max xs (a::nat)"
proof (induction xs arbitrary: a)
  case Nil
  then show ?case by simp
next
  case (Cons y ys)
  have "a \<le> max y a" by simp
  also have "max y a \<le> fold max ys (max y a)" by (rule Cons.IH)
  finally show ?case by simp
qed

lemma fold_max_mem: "x \<in> set xs \<Longrightarrow> x \<le> fold max xs (a::nat)"
proof (induction xs arbitrary: a)
  case Nil
  then show ?case by simp
next
  case (Cons y ys)
  show ?case
  proof (cases "x = y")
    case True
    have "y \<le> max y a" by simp
    also have "max y a \<le> fold max ys (max y a)" by (rule fold_max_ge)
    finally show ?thesis using True by simp
  next
    case False
    with Cons show ?thesis by simp
  qed
qed

lemma fresh_id_unused: "x \<in> set c \<Longrightarrow> doc_id x < fresh_id c"
  using fold_max_mem [of "doc_id x" "map doc_id c" 0] by (simp add: fresh_id_def)

lemma post_transaction_keeps:
  "x \<in> set c \<Longrightarrow> x \<in> set (snd (post_transaction (store_create r) body c))"
  by (simp add: post_transaction_def store_create_def Let_def)

lemma post_all_keeps: "x \<in> set c \<Longrightarrow> x \<in> set (post_all later c)"
proof (induction later arbitrary: c)
  case Nil
  then show ?case by simp
next
  case (Cons r rs)
  obtain reachable body where r: "r = (reachable, body)" by (cases r)
  from Cons.prems have "x \<in> set (snd (post_transaction (store_create reachable) body c))"
    by (rule post_transaction_keeps)
  then have "x \<in> set (post_all rs (snd (post_transaction (store_create reachable) body c)))"
    by (rule Cons.IH)
  with r show ?case by simp
qed

text \<open>
  Claim C3. A POST whose body has the fields name, description, dateTime and price, on a
  store that can be reached, answers with a record of those four values and an
  identifier that no earlier record has; a GET that follows, at once or after any
  further POSTs, answers with a sequence that contains that very record.
\<close>

theorem create_then_list_round_trip:
  assumes "body (js ''name'') = Some n"
    and "body (js ''description'') = Some d"
    and "body (js ''dateTime'') = Some t"
    and "body (js ''price'') = Some p"
    and "created = \<lparr>doc_id = fresh_id c, doc_fields =
            \<lparr>doc_name = Some n, doc_description = Some d,
             doc_dateTime = Some t, doc_price = Some p\<rparr>\<rparr>"
  shows "post_transaction (store_create True) body c =
      (\<lparr>status = 200, json_body = JsonDocument created\<rparr>, c @ [created]) \<and>
    get_transaction (store_find True) (c @ [created]) =
      \<lparr>status = 200, json_body = JsonArray (c @ [created])\<rparr> \<and>
    (\<forall>x \<in> set c. doc_id x \<noteq> doc_id created) \<and>
    (\<forall>later. get_transaction (store_find True) (post_all later (c @ [created])) =
        \<lparr>status = 200, json_body = JsonArray (post_all later (c @ [created]))\<rparr> \<and>
      created \<in> set (post_all later (c @ [created])))"
proof -
  have post: "post_transaction (store_create True) body c =
      (\<lparr>status = 200, json_body = JsonDocument created\<rparr>, c @ [created])"
    using assms by (simp add: post_transaction_def store_create_def Let_def)
  have get: "get_transaction (store_find True) c' = \<lparr>status = 200, json_body = JsonArray c'\<rparr>"
    for c'
    by (simp add: get_transaction_def store_find_def)
  have unused: "\<forall>x \<in> set c. doc_id x \<noteq> doc_id created"
    using fresh_id_unused [of _ c] assms(5) by fastforce
  have kept: "created \<in> set (post_all later (c @ [created]))" for later
    by (rule post_all_keeps) simp
  from post get unused kept show ?thesis
    by simp
qed

text \<open>
  The transaction \<open>{name: "mobile", description: "d", dateTime: T, price: 20000}\<close>
  posted to the empty store, then listed.
\<close>

theorem create_then_list_round_trip_witness:
  "post_transaction (store_create True) example_body [] =
      (\<lparr>status = 200, json_body = JsonDocument example_created\<rparr>, [example_created]) \<and>
   get_transaction (store_find True) [example_created] =
      \<lparr>status = 200, json_body = JsonArray [example_created]\<rparr>"
  using create_then_list_round_trip [OF example_body_fields, of example_created "[]"]
  by (simp add: example_created_def example_fields_def fresh_id_def)

end
